theory Spec2Isabelle
  imports Main
begin

section \<open>The ink stream: \<^verbatim>\<open>routerlicious/packages/runtime/stream/src/stream.ts\<close>\<close>

subsection \<open>Data\<close>

text \<open>
  Every \<^verbatim>\<open>throw new Error(msg)\<close> of the sources is the value \<open>Error msg\<close>; a function that
  can throw returns it in the left summand, or beside the state it had reached.
\<close>

datatype error = Error string

text \<open>
  Modelled from the spec: the enum \<^verbatim>\<open>MessageType\<close> of \<^verbatim>\<open>@prague/container-definitions\<close> is
  not among the sources. The data model of the specification gives an operation the type
  \<^verbatim>\<open>Operation|Content|Signal\<close>; \<^verbatim>\<open>stream.ts\<close> only ever compares with
  \<^verbatim>\<open>MessageType.Operation\<close>.
\<close>

datatype MessageType = Operation | Content | Signal

text \<open>
  \<^verbatim>\<open>ISequencedDocumentMessage\<close>, with the two fields \<^verbatim>\<open>processContent\<close> reads:
  \<^verbatim>\<open>message.type\<close> as \<open>msg_type\<close> and \<^verbatim>\<open>message.contents\<close> as \<open>msg_contents\<close>. The
  payload type \<open>'d\<close> is \<^verbatim>\<open>IDelta\<close>, whose declaration (\<^verbatim>\<open>./interfaces\<close>) is not among
  the sources.
\<close>

record 'd ISequencedDocumentMessage =
  msg_type :: MessageType
  msg_contents :: 'd

text \<open>
  \<^verbatim>\<open>ISnapshot\<close>, with the shape of \<^verbatim>\<open>emptySnapshot = { layers: [], layerIndex: {} }\<close>:
  an array of layers (\<open>'l\<close> is \<^verbatim>\<open>IInkLayer\<close>, declared in \<^verbatim>\<open>./interfaces\<close>) and an object
  that sends a key to a position of that array. A position is a JavaScript number; the
  integers stand for those that Snapshot writes, and a position outside the array reads as
  \<^verbatim>\<open>undefined\<close> (see \<open>array_get\<close>).
\<close>

record 'l ISnapshot =
  layers :: "'l list"
  layerIndex :: "string \<rightharpoonup> int"


definition emptySnapshot :: "'l ISnapshot" where
  "emptySnapshot = \<lparr>layers = [], layerIndex = Map.empty\<rparr>"

text \<open>
  Modelled from the spec: the base class \<^verbatim>\<open>SharedMap\<close> (\<^verbatim>\<open>@prague/map\<close>) is not among the
  sources, so its part of the state is taken from the specification, which gives a shared
  object an ordered queue \<^verbatim>\<open>pendingLocalOps\<close> whose entries carry the mark \<^verbatim>\<open>local\<close>;
  \<open>transmitted\<close> is the sequence of payloads forwarded for transmission so far, oldest
  first.

  The field \<open>inkSnapshot\<close> is the one of \<^verbatim>\<open>stream.ts\<close>. The record is a \<^verbatim>\<open>Stream\<close> in its
  Ready state, that is after \<^verbatim>\<open>loadContent\<close> or \<^verbatim>\<open>initializeContent\<close> has set the field.
\<close>

record ('l, 'd) Stream =
  inkSnapshot :: "'l ISnapshot"
  pendingLocalOps :: "('d \<times> bool) list"
  transmitted :: "'d list"

text \<open>
  \<^verbatim>\<open>Snapshot.apply\<close> (\<^verbatim>\<open>./snapshot\<close>) is not among the sources, so it is a parameter of
  every function that calls it. It mutates the snapshot in place and may throw: it gives
  the exception, if any, and the snapshot as it stands when the call ends.
\<close>

type_synonym ('l, 'd) snapshot_apply =
  "'d \<Rightarrow> 'l ISnapshot \<Rightarrow> error option \<times> 'l ISnapshot"

subsection \<open>Reading layers\<close>

text \<open>
  \<^verbatim>\<open>xs[i]\<close> on a JavaScript array: the element at an integral position inside the array,
  \<^verbatim>\<open>undefined\<close> (here \<open>None\<close>) everywhere else; it never throws.
\<close>

definition array_get :: "'a list \<Rightarrow> int \<Rightarrow> 'a option" where
  "array_get xs i = (if 0 \<le> i \<and> i < int (length xs) then Some (xs ! nat i) else None)"

definition getLayers :: "('l, 'd) Stream \<Rightarrow> 'l list" where
  "getLayers this = layers (inkSnapshot this)"

text \<open>
  \<^verbatim>\<open>return this.inkSnapshot.layers[this.inkSnapshot.layerIndex[key]];\<close>
  A key that the index does not hold reads as \<^verbatim>\<open>undefined\<close>, and \<^verbatim>\<open>layers[undefined]\<close> is
  \<^verbatim>\<open>undefined\<close> again. (Under the name of a member of \<^verbatim>\<open>Object.prototype\<close> the lookup finds
  that member, which is no position of an array either.)
\<close>

definition getLayer :: "string \<Rightarrow> ('l, 'd) Stream \<Rightarrow> 'l option" where
  "getLayer key this =
     (case layerIndex (inkSnapshot this) key of
        None \<Rightarrow> None
      | Some i \<Rightarrow> array_get (layers (inkSnapshot this)) i)"

subsection \<open>Submitting and processing operations\<close>

text \<open>
  Modelled from the spec: \<^verbatim>\<open>submitLocalMessage\<close> belongs to the base class, which is not
  among the sources. In the words of the specification, submitting a local operation
  appends it to \<^verbatim>\<open>pendingLocalOps\<close>, marks it \<^verbatim>\<open>local = true\<close> and forwards it for
  transmission. (Applying it to the committed state is the part \<^verbatim>\<open>submitOp\<close> does itself.)
\<close>

definition submitLocalMessage :: "'d \<Rightarrow> ('l, 'd) Stream \<Rightarrow> ('l, 'd) Stream" where
  "submitLocalMessage content this =
     this\<lparr>pendingLocalOps := pendingLocalOps this @ [(content, True)],
          transmitted := transmitted this @ [content]\<rparr>"

text \<open>
  \<^verbatim>\<open>this.submitLocalMessage(op); this.inkSnapshot.apply(op);\<close>
  The message is submitted before the snapshot is touched, so it stays submitted when
  \<^verbatim>\<open>apply\<close> throws.
\<close>

definition submitOp ::
  "('l, 'd) snapshot_apply \<Rightarrow> 'd \<Rightarrow> ('l, 'd) Stream \<Rightarrow> error option \<times> ('l, 'd) Stream" where
  "submitOp apply_delta op this =
     (let this1 = submitLocalMessage op this;
          (exn, snap) = apply_delta op (inkSnapshot this1)
      in (exn, this1\<lparr>inkSnapshot := snap\<rparr>))"

text \<open>
  \<^verbatim>\<open>if (message.type === MessageType.Operation && !local) {
      this.inkSnapshot.apply(message.contents as IDelta); }\<close>
\<close>

definition processContent ::
  "('l, 'd) snapshot_apply \<Rightarrow> 'd ISequencedDocumentMessage \<Rightarrow> bool \<Rightarrow> ('l, 'd) Stream
     \<Rightarrow> error option \<times> ('l, 'd) Stream" where
  "processContent apply_delta message local this =
     (if msg_type message = Operation \<and> \<not> local
      then (let (exn, snap) = apply_delta (msg_contents message) (inkSnapshot this)
            in (exn, this\<lparr>inkSnapshot := snap\<rparr>))
      else (None, this))"

text \<open>
  \<^verbatim>\<open>for (const message of pending) { this.submitLocalMessage(message); }\<close>
  The argument is a list of its own: the array \<^verbatim>\<open>pending\<close> is taken not to be the queue that
  \<^verbatim>\<open>submitLocalMessage\<close> appends to.
\<close>

fun onConnectContent :: "'d list \<Rightarrow> ('l, 'd) Stream \<Rightarrow> ('l, 'd) Stream" where
  "onConnectContent [] this = this"
| "onConnectContent (message # pending) this =
     onConnectContent pending (submitLocalMessage message this)"

subsection \<open>Snapshot and load\<close>

text \<open>
  Modelled from the spec: the enum \<^verbatim>\<open>FileMode\<close> is not among the sources; the
  specification calls the snapshot a file-like tree of named entries, and the source uses
  \<^verbatim>\<open>FileMode.File\<close> only.
\<close>

datatype FileMode = File | Directory

text \<open>
  The tree \<^verbatim>\<open>snapshotContent\<close> builds: \<^verbatim>\<open>ITree\<close>, its entries and the blob inside an entry,
  with the fields the object literal of the source gives them (\<^verbatim>\<open>type\<close> is \<open>entry_type\<close>
  here). \<^verbatim>\<open>sha: null\<close> is \<open>None\<close>.
\<close>

record IBlob =
  contents :: string
  encoding :: string

record ITreeEntry =
  mode :: FileMode
  path :: string
  entry_type :: string
  "value" :: IBlob

record ITree =
  entries :: "ITreeEntry list"
  sha :: "string option"


text \<open>
  Modelled from the spec: \<^verbatim>\<open>Snapshot.Clone\<close> (\<^verbatim>\<open>./snapshot\<close>) is not among the sources. By
  the specification a shared object is Ready once the stored snapshot is read and
  deserialized, and loading a snapshot gives back the state: the clone is a new snapshot
  with the layers and the layer index of the data.
\<close>

definition Clone :: "'l ISnapshot \<Rightarrow> 'l ISnapshot" where
  "Clone snapshot = \<lparr>layers = layers snapshot, layerIndex = layerIndex snapshot\<rparr>"

definition initialize :: "'l ISnapshot \<Rightarrow> ('l, 'd) Stream \<Rightarrow> ('l, 'd) Stream" where
  "initialize data this = this\<lparr>inkSnapshot := Clone data\<rparr>"

definition initializeContent :: "('l, 'd) Stream \<Rightarrow> ('l, 'd) Stream" where
  "initializeContent this = initialize emptySnapshot this"




section \<open>The static Fluid API: \<^verbatim>\<open>containerCode.ts\<close> and \<^verbatim>\<open>FluidStatic.ts\<close>\<close>

subsection \<open>Data\<close>

text \<open>
  \<^verbatim>\<open>IFluidStaticDataObjectClass\<close> is an object with a \<^verbatim>\<open>factory\<close>; of the factory
  (\<^verbatim>\<open>IFluidDataStoreFactory\<close>, declared outside the sources) the code reads the \<^verbatim>\<open>type\<close>, here
  \<open>factory_type\<close>.
\<close>

record IFluidDataStoreFactory =
  factory_type :: string

record IFluidStaticDataObjectClass =
  factory :: IFluidDataStoreFactory

text \<open>
  \<^verbatim>\<open>NamedFluidDataStoreRegistryEntry\<close> is the pair \<^verbatim>\<open>[type, Promise.resolve(factory)]\<close> that
  \<^verbatim>\<open>getRegistryEntries\<close> builds.
\<close>

type_synonym NamedFluidDataStoreRegistryEntry = "string \<times> IFluidDataStoreFactory"

text \<open>
  Modelled from the spec: \<^verbatim>\<open>IContainerRuntime\<close> is not among the sources. The container
  keeps the data objects it has created, by id; here they are the pairs of the id and the
  type of each root object, in the order of creation.
\<close>

record IContainerRuntime =
  rootDataStores :: "(string \<times> string) list"

definition newRuntime :: IContainerRuntime where
  "newRuntime = \<lparr>rootDataStores = []\<rparr>"

text \<open>
  Modelled from the spec: \<^verbatim>\<open>runtime.createRootDataStore(pkg, rootDataStoreId)\<close> is not among
  the sources. A creation either fails and leaves the runtime as it was, or adds the root
  object after those that exist. When it fails is the parameter \<open>refuses\<close>: the
  specification leaves the behaviour for a colliding id to the implementation, and says
  nothing of a type without a factory.
\<close>

type_synonym refusal = "string \<Rightarrow> string \<Rightarrow> IContainerRuntime \<Rightarrow> error option"

definition createRootDataStore ::
  "refusal \<Rightarrow> string \<Rightarrow> string \<Rightarrow> IContainerRuntime \<Rightarrow> error + IContainerRuntime" where
  "createRootDataStore refuses pkg rootDataStoreId runtime =
     (case refuses pkg rootDataStoreId runtime of
        Some e \<Rightarrow> Inl e
      | None \<Rightarrow>
          Inr (runtime\<lparr>rootDataStores := rootDataStores runtime @ [(rootDataStoreId, pkg)]\<rparr>))"

subsection \<open>\<^verbatim>\<open>DOProviderContainerRuntimeFactory\<close>\<close>

record DOProviderContainerRuntimeFactory =
  registryEntries :: "NamedFluidDataStoreRegistryEntry list"
  initialDataObjects :: "(string \<times> IFluidStaticDataObjectClass) list"

text \<open>
  The constructor: \<^verbatim>\<open>initialDataObjects\<close> is \<^verbatim>\<open>[]\<close> when the argument is left out or
  \<^verbatim>\<open>undefined\<close> (\<open>None\<close>).
\<close>

definition DOProviderContainerRuntimeFactory_constructor ::
  "NamedFluidDataStoreRegistryEntry list \<Rightarrow> (string \<times> IFluidStaticDataObjectClass) list option
     \<Rightarrow> DOProviderContainerRuntimeFactory" where
  "DOProviderContainerRuntimeFactory_constructor namedEntries initial =
     \<lparr>registryEntries = namedEntries,
      initialDataObjects = (case initial of None \<Rightarrow> [] | Some xs \<Rightarrow> xs)\<rparr>"

text \<open>
  \<^verbatim>\<open>for (const [id, dataObject] of this.initialDataObjects) {
      await runtime.createRootDataStore(dataObject.factory.type, id); }\<close>
  Each creation is awaited before the next one starts; the first one that fails ends the
  loop with its exception.
\<close>

fun createInitialDataObjects ::
  "refusal \<Rightarrow> (string \<times> IFluidStaticDataObjectClass) list \<Rightarrow> IContainerRuntime
     \<Rightarrow> error + IContainerRuntime" where
  "createInitialDataObjects refuses [] runtime = Inr runtime"
| "createInitialDataObjects refuses ((id', dataObject) # rest) runtime =
     (case createRootDataStore refuses (factory_type (factory dataObject)) id' runtime of
        Inl e \<Rightarrow> Inl e
      | Inr runtime' \<Rightarrow> createInitialDataObjects refuses rest runtime')"

definition containerInitializingFirstTime ::
  "refusal \<Rightarrow> DOProviderContainerRuntimeFactory \<Rightarrow> IContainerRuntime
     \<Rightarrow> error + IContainerRuntime" where
  "containerInitializingFirstTime refuses this runtime =
     createInitialDataObjects refuses (initialDataObjects this) runtime"

text \<open>
  The documents of the service: a map from the id of a document to its runtime.
\<close>

type_synonym documents = "string \<rightharpoonup> IContainerRuntime"

text \<open>
  Modelled from the spec: \<^verbatim>\<open>getContainer\<close> of \<^verbatim>\<open>@fluid-experimental/get-container\<close> and the
  base class \<^verbatim>\<open>BaseContainerRuntimeFactory\<close>, which calls the hook above, are not among the
  sources. By the specification creating and loading are distinct paths: exactly once, when
  a container is created and never when an existing one is opened, every entry of the eager
  list is instantiated, before the container is ready for use; an unknown document is a
  \<^verbatim>\<open>NotFoundError\<close>. The container that the call resolves to is the id of the document, a
  reference into the documents of the service. That a document which exists cannot be
  created again is a choice of this model; the theorems below only create documents that do
  not exist.
\<close>

definition getContainer ::
  "refusal \<Rightarrow> 's \<Rightarrow> string \<Rightarrow> DOProviderContainerRuntimeFactory \<Rightarrow> bool \<Rightarrow> documents
     \<Rightarrow> (error + string) \<times> documents" where
  "getContainer refuses getContainerService id' containerRuntimeFactory createNew' docs =
     (if createNew'
      then (case containerInitializingFirstTime refuses containerRuntimeFactory newRuntime of
              Inl e \<Rightarrow> (Inl e, docs)
            | Inr runtime \<Rightarrow>
                (case docs id' of
                   Some _ \<Rightarrow> (Inl (Error ''document already exists''), docs)
                 | None \<Rightarrow> (Inr id', docs(id' \<mapsto> runtime))))
      else (case docs id' of
              None \<Rightarrow> (Inl (Error ''NotFoundError''), docs)
            | Some runtime \<Rightarrow> (Inr id', docs)))"

text \<open>
  What the eager list leaves in a runtime: for each entry the id and the type of its data
  object, in the order of the list.
\<close>

definition eager_roots ::
  "(string \<times> IFluidStaticDataObjectClass) list \<Rightarrow> (string \<times> string) list" where
  "eager_roots initial =
     map (\<lambda>(id', dataObject). (id', factory_type (factory dataObject))) initial"

text \<open>
  A runtime that creates each data object of the list whenever its id is not in use.
\<close>

definition accepts_unused ::
  "refusal \<Rightarrow> (string \<times> IFluidStaticDataObjectClass) list \<Rightarrow> bool" where
  "accepts_unused refuses initial =
     (\<forall>(id', dataObject) \<in> set initial. \<forall>runtime.
        id' \<notin> fst ` set (rootDataStores runtime) \<longrightarrow>
        refuses (factory_type (factory dataObject)) id' runtime = None)"

subsection \<open>\<^verbatim>\<open>FluidContainer\<close>\<close>

text \<open>
  A \<^verbatim>\<open>FluidContainer\<close> holds a reference \<open>'h\<close> to its \<^verbatim>\<open>IContainer\<close>, which it shares with
  the service. The containers themselves are the state \<open>'w\<close> that every function takes and
  gives back as it has left it.
\<close>

record 'h FluidContainer =
  container :: 'h
  types :: "string set"
  createNew :: bool

text \<open>
  \<^verbatim>\<open>namedRegistryEntries.forEach((value) => {
      const type = value[0];
      if (this.types.has(type)) {
          throw new Error(`Multiple DataObjects share the same type identifier ${value}`); }
      this.types.add(type); });\<close>
  The template prints the entry, an array of the type and a promise, as the type, a comma
  and \<^verbatim>\<open>[object Promise]\<close>.
\<close>

definition duplicate_type_message :: "string \<Rightarrow> string" where
  "duplicate_type_message type =
     ''Multiple DataObjects share the same type identifier '' @ type @ '',[object Promise]''"

fun FluidContainer_forEach ::
  "string set \<Rightarrow> NamedFluidDataStoreRegistryEntry list \<Rightarrow> error + string set" where
  "FluidContainer_forEach types' [] = Inr types'"
| "FluidContainer_forEach types' (entry # namedRegistryEntries) =
     (let type = fst entry
      in if type \<in> types' then Inl (Error (duplicate_type_message type))
         else FluidContainer_forEach (insert type types') namedRegistryEntries)"

definition FluidContainer_constructor ::
  "'h \<Rightarrow> NamedFluidDataStoreRegistryEntry list \<Rightarrow> bool \<Rightarrow> 'w
     \<Rightarrow> (error + 'h FluidContainer) \<times> 'w" where
  "FluidContainer_constructor container' namedRegistryEntries createNew' world =
     (case FluidContainer_forEach {} namedRegistryEntries of
        Inl e \<Rightarrow> (Inl e, world)
      | Inr types' \<Rightarrow>
          (Inr \<lparr>container = container', types = types', createNew = createNew'\<rparr>, world))"

text \<open>
  \<^verbatim>\<open>getObjectWithIdFromContainer\<close> (\<^verbatim>\<open>@fluidframework/aqueduct\<close>) and
  \<^verbatim>\<open>IContainer.request\<close> are not among the sources: they are parameters, each of which may
  fail and may change the containers.
\<close>

definition getDataObject ::
  "(string \<Rightarrow> 'h \<Rightarrow> 'w \<Rightarrow> (error + 'o) \<times> 'w) \<Rightarrow> 'h FluidContainer \<Rightarrow> string \<Rightarrow> 'w
     \<Rightarrow> (error + 'o) \<times> 'w" where
  "getDataObject getObjectWithIdFromContainer this id' world =
     getObjectWithIdFromContainer id' (container this) world"

definition unregistered_type_message :: "string \<Rightarrow> string" where
  "unregistered_type_message type =
     ''Trying to create a DataObject with type '' @ type
       @ '' that was not defined in Container initialization''"

text \<open>
  \<^verbatim>\<open>const type = dataObjectClass.factory.type;
  if (!this.types.has(type)) { throw new Error(`Trying to create ...`); }
  await this.container.request({ url: `/create/${type}/${id}` });
  const dataObject = await this.getDataObject<T>(id);
  return dataObject;\<close>
\<close>

definition createDataObject ::
  "('h \<Rightarrow> string \<Rightarrow> 'w \<Rightarrow> (error + 'r) \<times> 'w) \<Rightarrow> (string \<Rightarrow> 'h \<Rightarrow> 'w \<Rightarrow> (error + 'o) \<times> 'w)
     \<Rightarrow> 'h FluidContainer \<Rightarrow> IFluidStaticDataObjectClass \<Rightarrow> string \<Rightarrow> 'w
     \<Rightarrow> (error + 'o) \<times> 'w" where
  "createDataObject request getObjectWithIdFromContainer this dataObjectClass id' world =
     (let type = factory_type (factory dataObjectClass)
      in if type \<notin> types this
         then (Inl (Error (unregistered_type_message type)), world)
         else (case request (container this) (''/create/'' @ type @ ''/'' @ id') world of
                 (Inl e, world') \<Rightarrow> (Inl e, world')
               | (Inr _, world') \<Rightarrow>
                   getDataObject getObjectWithIdFromContainer this id' world'))"

subsection \<open>\<^verbatim>\<open>FluidInstance\<close> and the global \<^verbatim>\<open>Fluid\<close>\<close>

text \<open>
  \<^verbatim>\<open>ContainerConfig\<close> and \<^verbatim>\<open>ContainerCreateConfig\<close>. The optional field
  \<^verbatim>\<open>initialDataObjects\<close> (here \<open>config_initialDataObjects\<close>, \<open>None\<close> when it is left out)
  has the type \<^verbatim>\<open>IdToDataObjectCollection\<close>, whose declaration is not among the sources; it
  is handed as it is to the constructor of the runtime factory, which takes and iterates
  an array of pairs of an id and a class, so that is its type here.
\<close>

record ContainerConfig =
  dataObjects :: "IFluidStaticDataObjectClass list"

record ContainerCreateConfig = ContainerConfig +
  config_initialDataObjects :: "(string \<times> IFluidStaticDataObjectClass) list option"

text \<open>The eager list of a configuration: empty when the field is left out.\<close>

definition eager_list ::
  "ContainerCreateConfig \<Rightarrow> (string \<times> IFluidStaticDataObjectClass) list" where
  "eager_list config =
     initialDataObjects
       (DOProviderContainerRuntimeFactory_constructor [] (config_initialDataObjects config))"

record 's FluidInstance =
  containerService :: 's

text \<open>
  The constructor: \<^verbatim>\<open>getContainerService === undefined\<close> is the argument \<open>None\<close>.
\<close>

definition FluidInstance_constructor :: "'s option \<Rightarrow> error + 's FluidInstance" where
  "FluidInstance_constructor getContainerService =
     (case getContainerService of
        None \<Rightarrow> Inl (Error ''Fluid cannot be initialized without a ContainerService'')
      | Some service \<Rightarrow> Inr \<lparr>containerService = service\<rparr>)"

definition getRegistryEntries ::
  "IFluidStaticDataObjectClass list \<Rightarrow> error + NamedFluidDataStoreRegistryEntry list" where
  "getRegistryEntries dataObjects' =
     (if length dataObjects' = 0
      then Inl (Error ''Container cannot be initialized without DataObjects'')
      else Inr (map (\<lambda>dataObjectClass.
                  (factory_type (factory dataObjectClass), factory dataObjectClass)) dataObjects'))"

text \<open>
  \<^verbatim>\<open>createContainer\<close> and \<^verbatim>\<open>getContainer\<close> of a \<^verbatim>\<open>FluidInstance\<close>. The first hands
  \<^verbatim>\<open>config.initialDataObjects\<close> to the runtime factory and asks for a new container; the
  second builds its runtime factory without a list of initial data objects and asks for an
  existing one. Both construct the \<^verbatim>\<open>FluidContainer\<close> after the service has answered.
\<close>

definition FluidInstance_createContainer ::
  "refusal \<Rightarrow> 's FluidInstance \<Rightarrow> string \<Rightarrow> ContainerCreateConfig \<Rightarrow> documents
     \<Rightarrow> (error + string FluidContainer) \<times> documents" where
  "FluidInstance_createContainer refuses this id' config docs =
     (case getRegistryEntries (dataObjects config) of
        Inl e \<Rightarrow> (Inl e, docs)
      | Inr namedEntries \<Rightarrow>
          (case getContainer refuses (containerService this) id'
                  (DOProviderContainerRuntimeFactory_constructor namedEntries
                     (config_initialDataObjects config))
                  True docs of
             (Inl e, docs') \<Rightarrow> (Inl e, docs')
           | (Inr container', docs') \<Rightarrow>
               FluidContainer_constructor container' namedEntries True docs'))"

definition FluidInstance_getContainer ::
  "refusal \<Rightarrow> 's FluidInstance \<Rightarrow> string \<Rightarrow> ContainerConfig \<Rightarrow> documents
     \<Rightarrow> (error + string FluidContainer) \<times> documents" where
  "FluidInstance_getContainer refuses this id' config docs =
     (case getRegistryEntries (dataObjects config) of
        Inl e \<Rightarrow> (Inl e, docs)
      | Inr namedEntries \<Rightarrow>
          (case getContainer refuses (containerService this) id'
                  (DOProviderContainerRuntimeFactory_constructor namedEntries None)
                  False docs of
             (Inl e, docs') \<Rightarrow> (Inl e, docs')
           | (Inr container', docs') \<Rightarrow>
               FluidContainer_constructor container' namedEntries False docs'))"

text \<open>
  \<^verbatim>\<open>let globalFluid: FluidInstance | undefined;\<close> is the state of the module;
  \<^verbatim>\<open>Fluid.init\<close> takes it and gives it back.
\<close>

definition Fluid_init ::
  "'s option \<Rightarrow> 's FluidInstance option \<Rightarrow> (error + unit) \<times> 's FluidInstance option" where
  "Fluid_init getContainerService globalFluid =
     (case globalFluid of
        Some _ \<Rightarrow> (Inl (Error ''Fluid cannot be initialized more than once''), globalFluid)
      | None \<Rightarrow>
          (case FluidInstance_constructor getContainerService of
             Inl e \<Rightarrow> (Inl e, globalFluid)
           | Inr instance \<Rightarrow> (Inr (), Some instance)))"

section \<open>The platform: base64 and JSON\<close>

text \<open>
  \<^verbatim>\<open>Buffer\<close> and \<^verbatim>\<open>JSON\<close> belong to the platform, not to the repository. This section models
  them, to run the stream on and to evaluate it at concrete states. A text is the list of
  its bytes in utf-8.
\<close>

subsection \<open>base64\<close>





fun index_of :: "'a \<Rightarrow> 'a list \<Rightarrow> nat option" where
  "index_of x [] = None"
| "index_of x (y # ys) = (if x = y then Some 0 else map_option Suc (index_of x ys))"




subsection \<open>JavaScript values and their JSON texts\<close>


























subsection \<open>Snapshots as JSON\<close>








subsection \<open>Values that JSON reads back\<close>





subsection \<open>Storage services\<close>




section \<open>Sample inputs\<close>






definition sample_stream :: "(string, string) Stream" where
  "sample_stream =
     \<lparr>inkSnapshot = \<lparr>layers = [''ink-a'', ''ink-b''], layerIndex = [''a'' \<mapsto> 0, ''b'' \<mapsto> 1]\<rparr>,
      pendingLocalOps = [], transmitted = []\<rparr>"

text \<open>A stream whose index holds a position beyond its one layer.\<close>

definition stale_stream :: "(string, string) Stream" where
  "stale_stream =
     \<lparr>inkSnapshot = \<lparr>layers = [''ink-a''], layerIndex = [''a'' \<mapsto> 0, ''far'' \<mapsto> 7]\<rparr>,
      pendingLocalOps = [], transmitted = []\<rparr>"

text \<open>A \<^verbatim>\<open>Snapshot.apply\<close> to run with: every delta adds a layer.\<close>

definition sample_apply :: "(string, string) snapshot_apply" where
  "sample_apply delta snapshot = (None, snapshot\<lparr>layers := layers snapshot @ [delta]\<rparr>)"

text \<open>
  Two data object classes, a runtime that refuses an id which is in use, and a container
  that records the requests it receives.
\<close>

definition Foo :: IFluidStaticDataObjectClass where
  "Foo = \<lparr>factory = \<lparr>factory_type = ''foo-dataobject''\<rparr>\<rparr>"

definition Bar :: IFluidStaticDataObjectClass where
  "Bar = \<lparr>factory = \<lparr>factory_type = ''bar-dataobject''\<rparr>\<rparr>"

definition refuses_collision :: refusal where
  "refuses_collision pkg rootDataStoreId runtime =
     (if rootDataStoreId \<in> fst ` set (rootDataStores runtime)
      then Some (Error ''id in use'') else None)"

definition recording_request ::
  "string \<Rightarrow> string \<Rightarrow> (string \<times> string) list \<Rightarrow> (error + unit) \<times> (string \<times> string) list" where
  "recording_request container' url world = (Inr (), world @ [(container', url)])"

definition no_object ::
  "string \<Rightarrow> string \<Rightarrow> (string \<times> string) list \<Rightarrow> (error + unit) \<times> (string \<times> string) list" where
  "no_object id' container' world = (Inl (Error ''NotFoundError''), world)"

section \<open>Theorems about the ink stream\<close>

text \<open>
  C2. A sequenced message delivered to \<open>processContent\<close> with \<open>local\<close> true, the echo of an
  operation this client has already applied, leaves the whole stream as it is, the committed
  ink state included, and raises nothing: \<^verbatim>\<open>Snapshot.apply\<close> is not called at all, whatever
  it would do.
\<close>

theorem processContent_local_echo_skipped:
  "processContent apply_delta message True this = (None, this)"
  by (simp add: processContent_def)

text \<open>
  C9. A message that is not local and whose type is not \<open>Operation\<close> leaves the committed
  ink state (and the rest of the stream) unchanged: only a remote message of type
  \<open>Operation\<close> reaches \<^verbatim>\<open>Snapshot.apply\<close>.
\<close>

theorem processContent_non_operation_frame:
  "msg_type message \<noteq> Operation \<Longrightarrow>
     processContent apply_delta message False this = (None, this)"
  by (simp add: processContent_def)

text \<open>
  C3. On a reconnect \<open>onConnectContent\<close> forwards exactly the pending operations it is
  given, each once and in their order, after what had been transmitted before; each of them
  is queued again as a local operation; and none is applied again: the committed ink state
  after the reconnect is the one before.
\<close>

theorem onConnectContent_resubmits_pending:
  "transmitted (onConnectContent pending this) = transmitted this @ pending
   \<and> pendingLocalOps (onConnectContent pending this)
       = pendingLocalOps this @ map (\<lambda>message. (message, True)) pending
   \<and> inkSnapshot (onConnectContent pending this) = inkSnapshot this"
  by (induction pending arbitrary: this) (simp_all add: submitLocalMessage_def)

text \<open>
  C4. \<open>submitOp\<close> appends the operation, marked local, to the pending local operations,
  forwards it for transmission, and leaves as committed ink state what \<^verbatim>\<open>Snapshot.apply\<close>
  makes of the state before, in the same call; an exception of \<^verbatim>\<open>Snapshot.apply\<close> is the
  only one it can raise.
\<close>

theorem submitOp_appends_applies_forwards:
  "pendingLocalOps (snd (submitOp apply_delta op this)) = pendingLocalOps this @ [(op, True)]
   \<and> inkSnapshot (snd (submitOp apply_delta op this)) = snd (apply_delta op (inkSnapshot this))
   \<and> transmitted (snd (submitOp apply_delta op this)) = transmitted this @ [op]
   \<and> fst (submitOp apply_delta op this) = fst (apply_delta op (inkSnapshot this))"
  by (simp add: submitOp_def submitLocalMessage_def split: prod.split)

text \<open>
  C10. For a key that the layer index of the ink snapshot does not hold, \<open>getLayer\<close> returns
  \<^verbatim>\<open>undefined\<close> (\<open>None\<close>) and raises nothing. For a key that the index sends to a position,
  it returns what the array of layers holds at that position: the layer there when the
  position lies inside the array, \<^verbatim>\<open>undefined\<close> when it does not.
\<close>

theorem getLayer_lookup:
  "(layerIndex (inkSnapshot this) key = None \<longrightarrow> getLayer key this = None)
   \<and> (\<forall>i. layerIndex (inkSnapshot this) key = Some i \<longrightarrow>
         getLayer key this = array_get (layers (inkSnapshot this)) i
         \<and> (0 \<le> i \<and> i < int (length (layers (inkSnapshot this))) \<longrightarrow>
              getLayer key this = Some (layers (inkSnapshot this) ! nat i)))"
  by (simp add: getLayer_def array_get_def)

theorem getLayer_lookup_witness:
  "layerIndex (inkSnapshot sample_stream) ''c'' = None
   \<and> getLayer ''c'' sample_stream = None
   \<and> layerIndex (inkSnapshot sample_stream) ''b'' = Some 1
   \<and> getLayer ''b'' sample_stream = Some ''ink-b''
   \<and> layerIndex (inkSnapshot stale_stream) ''far'' = Some 7
   \<and> getLayer ''far'' stale_stream = None"
  using getLayer_lookup [of sample_stream "''c''"] getLayer_lookup [of sample_stream "''b''"]
    getLayer_lookup [of stale_stream "''far''"]
  by (simp add: sample_stream_def stale_stream_def array_get_def)

text \<open>
  At a sample: a remote message of type \<open>Content\<close> leaves a stream as it is, under an apply
  function that adds a layer when a remote message of type \<open>Operation\<close> arrives.
\<close>

theorem processContent_non_operation_frame_witness:
  "msg_type \<lparr>msg_type = Content, msg_contents = ''stroke''\<rparr> \<noteq> Operation
   \<and> processContent sample_apply \<lparr>msg_type = Content, msg_contents = ''stroke''\<rparr> False
       sample_stream = (None, sample_stream)
   \<and> processContent sample_apply \<lparr>msg_type = Operation, msg_contents = ''stroke''\<rparr> False
       sample_stream \<noteq> (None, sample_stream)"
  using processContent_non_operation_frame
    [of "\<lparr>msg_type = Content, msg_contents = ''stroke''\<rparr>" sample_apply sample_stream]
  by (simp add: processContent_def sample_apply_def sample_stream_def)

text \<open>
  The base64 of the platform: decoding undoes encoding, for every text, and only the empty
  text is encoded as the empty text.
\<close>

lemma index_of_absent: "x \<notin> set xs \<Longrightarrow> index_of x xs = None"
  by (induction xs) auto



































































section \<open>Theorems about the static Fluid API\<close>

lemma FluidContainer_forEach_distinct:
  "distinct (map fst es) \<Longrightarrow> set (map fst es) \<inter> acc = {} \<Longrightarrow>
   FluidContainer_forEach acc es = Inr (acc \<union> set (map fst es))"
  by (induction es arbitrary: acc) (auto simp: Let_def)

lemma FluidContainer_forEach_duplicate:
  "\<not> (distinct (map fst es) \<and> set (map fst es) \<inter> acc = {}) \<Longrightarrow>
   \<exists>pre t post. map fst es = pre @ t # post \<and> distinct pre \<and> set pre \<inter> acc = {}
      \<and> (t \<in> set pre \<or> t \<in> acc)
      \<and> FluidContainer_forEach acc es = Inl (Error (duplicate_type_message t))"
proof (induction es arbitrary: acc)
  case Nil
  then show ?case by simp
next
  case (Cons e es)
  show ?case
  proof (cases "fst e \<in> acc")
    case True
    then have "map fst (e # es) = [] @ fst e # map fst es \<and> distinct ([]::string list)
       \<and> set ([]::string list) \<inter> acc = {} \<and> (fst e \<in> set [] \<or> fst e \<in> acc)
       \<and> FluidContainer_forEach acc (e # es) = Inl (Error (duplicate_type_message (fst e)))"
      by (simp add: Let_def)
    then show ?thesis by blast
  next
    case False
    with Cons.prems
    have "\<not> (distinct (map fst es) \<and> set (map fst es) \<inter> insert (fst e) acc = {})"
      by auto
    from Cons.IH [OF this] obtain pre t post where
      later: "map fst es = pre @ t # post" "distinct pre" "set pre \<inter> insert (fst e) acc = {}"
        "t \<in> set pre \<or> t \<in> insert (fst e) acc"
        "FluidContainer_forEach (insert (fst e) acc) es = Inl (Error (duplicate_type_message t))"
      by blast
    from later False
    have "map fst (e # es) = (fst e # pre) @ t # post \<and> distinct (fst e # pre)
       \<and> set (fst e # pre) \<inter> acc = {} \<and> (t \<in> set (fst e # pre) \<or> t \<in> acc)
       \<and> FluidContainer_forEach acc (e # es) = Inl (Error (duplicate_type_message t))"
      by (auto simp: Let_def)
    then show ?thesis by blast
  qed
qed

lemma FluidContainer_constructor_distinct:
  "distinct (map fst es) \<Longrightarrow>
   FluidContainer_constructor c es cn world
     = (Inr \<lparr>container = c, types = set (map fst es), createNew = cn\<rparr>, world)"
proof -
  assume "distinct (map fst es)"
  then have "FluidContainer_forEach {} es = Inr ({} \<union> set (map fst es))"
    by (intro FluidContainer_forEach_distinct) simp_all
  then show ?thesis
    by (simp add: FluidContainer_constructor_def)
qed

text \<open>
  The constructor of \<open>FluidContainer\<close> over a list in which a type comes twice: it raises
  the error that names the first type to come a second time.
\<close>

lemma FluidContainer_constructor_duplicate:
  assumes "\<not> distinct (map fst es)"
  shows "\<exists>pre t post. map fst es = pre @ t # post \<and> distinct pre \<and> t \<in> set pre
         \<and> FluidContainer_constructor c es cn world
             = (Inl (Error (duplicate_type_message t)), world)"
proof -
  from assms have "\<not> (distinct (map fst es) \<and> set (map fst es) \<inter> {} = {})"
    by simp
  from FluidContainer_forEach_duplicate [OF this] obtain pre t post where
    "map fst es = pre @ t # post" "distinct pre" "t \<in> set pre"
    "FluidContainer_forEach {} es = Inl (Error (duplicate_type_message t))"
    by auto
  then show ?thesis
    by (auto simp: FluidContainer_constructor_def)
qed

text \<open>
  C6. For a data object class whose type is not registered in the container,
  \<open>createDataObject\<close> fails with the error of the unregistered type and leaves the containers
  as they were, whatever a request would do: the error comes before the create request is
  issued, and no instance is created.
\<close>

theorem createDataObject_unregistered_type:
  "factory_type (factory dataObjectClass) \<notin> types this \<Longrightarrow>
   createDataObject request getObjectWithIdFromContainer this dataObjectClass id' world
     = (Inl (Error (unregistered_type_message (factory_type (factory dataObjectClass)))),
        world)"
  by (simp add: createDataObject_def)

theorem createDataObject_unregistered_type_witness:
  "factory_type (factory Bar)
     \<notin> types \<lparr>container = ''doc'', types = {''foo-dataobject''}, createNew = True\<rparr>
   \<and> createDataObject recording_request no_object
       \<lparr>container = ''doc'', types = {''foo-dataobject''}, createNew = True\<rparr> Bar ''dice'' []
     = (Inl (Error (''Trying to create a DataObject with type bar-dataobject''
                    @ '' that was not defined in Container initialization'')), [])
   \<and> snd (createDataObject recording_request no_object
       \<lparr>container = ''doc'', types = {''foo-dataobject''}, createNew = True\<rparr> Foo ''dice'' [])
     = [(''doc'', ''/create/foo-dataobject/dice'')]"
  using createDataObject_unregistered_type
    [of Bar "\<lparr>container = ''doc'', types = {''foo-dataobject''}, createNew = True\<rparr>"
        recording_request no_object "''dice''" "[]"]
  by (simp add: Bar_def Foo_def unregistered_type_message_def createDataObject_def
      recording_request_def no_object_def getDataObject_def)

text \<open>
  C8. When a global instance exists, \<open>Fluid_init\<close> raises the error that Fluid cannot be
  initialized more than once and leaves that instance in place, whatever service it is
  called with.
\<close>

theorem Fluid_init_second_time_fails:
  "globalFluid = Some instance \<Longrightarrow>
   Fluid_init getContainerService globalFluid
     = (Inl (Error ''Fluid cannot be initialized more than once''), Some instance)"
  by (simp add: Fluid_init_def)

theorem Fluid_init_second_time_fails_witness:
  "Fluid_init (Some ''tinylicious'') None = (Inr (), Some \<lparr>containerService = ''tinylicious''\<rparr>)
   \<and> Fluid_init (Some ''other'') (snd (Fluid_init (Some ''tinylicious'') None))
     = (Inl (Error ''Fluid cannot be initialized more than once''),
        Some \<lparr>containerService = ''tinylicious''\<rparr>)"
proof -
  have first: "Fluid_init (Some ''tinylicious'') None
      = (Inr (), Some \<lparr>containerService = ''tinylicious''\<rparr>)"
    by (simp add: Fluid_init_def FluidInstance_constructor_def)
  then have "snd (Fluid_init (Some ''tinylicious'') None)
      = Some \<lparr>containerService = ''tinylicious''\<rparr>"
    by simp
  from Fluid_init_second_time_fails [OF this, of "Some ''other''"] first
  show ?thesis by (intro conjI)
qed

lemma createInitialDataObjects_all:
  "distinct (map fst initial) \<Longrightarrow>
   set (map fst initial) \<inter> fst ` set (rootDataStores runtime) = {} \<Longrightarrow>
   accepts_unused refuses initial \<Longrightarrow>
   createInitialDataObjects refuses initial runtime
     = Inr (runtime\<lparr>rootDataStores := rootDataStores runtime @ eager_roots initial\<rparr>)"
proof (induction initial arbitrary: runtime)
  case Nil
  then show ?case by (simp add: eager_roots_def)
next
  case (Cons x initial)
  obtain i c where x: "x = (i, c)" by (cases x)
  let ?r = "runtime\<lparr>rootDataStores := rootDataStores runtime @ [(i, factory_type (factory c))]\<rparr>"
  from Cons.prems x have "i \<notin> fst ` set (rootDataStores runtime)"
    by auto
  with Cons.prems(3) x have "refuses (factory_type (factory c)) i runtime = None"
    by (simp add: accepts_unused_def)
  then have step: "createRootDataStore refuses (factory_type (factory c)) i runtime = Inr ?r"
    by (simp add: createRootDataStore_def)
  from Cons.prems x have rest: "distinct (map fst initial)"
    by simp
  from Cons.prems x have fresh: "set (map fst initial) \<inter> fst ` set (rootDataStores ?r) = {}"
    by auto
  from Cons.prems(3) have "accepts_unused refuses initial"
    by (simp add: accepts_unused_def)
  from Cons.IH [OF rest fresh this] step x show ?case
    by (simp add: eager_roots_def)
qed

lemma getContainer_create:
  assumes "docs id' = None"
    and "distinct (map fst (initialDataObjects runtimeFactory))"
    and "accepts_unused refuses (initialDataObjects runtimeFactory)"
  shows "getContainer refuses service id' runtimeFactory True docs
         = (Inr id',
            docs(id' \<mapsto> \<lparr>rootDataStores = eager_roots (initialDataObjects runtimeFactory)\<rparr>))"
proof -
  let ?initial = "initialDataObjects runtimeFactory"
  have "createInitialDataObjects refuses ?initial newRuntime
      = Inr (newRuntime\<lparr>rootDataStores := rootDataStores newRuntime @ eager_roots ?initial\<rparr>)"
    using assms(2,3) by (intro createInitialDataObjects_all) (simp_all add: newRuntime_def)
  with assms(1) show ?thesis
    by (simp add: getContainer_def containerInitializingFirstTime_def newRuntime_def)
qed

lemma getContainer_load:
  "docs id' = Some runtime \<Longrightarrow>
   getContainer refuses service id' runtimeFactory False docs = (Inr id', docs)"
  by (simp add: getContainer_def)

lemma registry_of_distinct_types:
  assumes "dataObjects' \<noteq> []"
    and "distinct (map (\<lambda>c. factory_type (factory c)) dataObjects')"
  shows "\<exists>namedEntries. getRegistryEntries dataObjects' = Inr namedEntries
           \<and> map fst namedEntries = map (\<lambda>c. factory_type (factory c)) dataObjects'"
  using assms by (simp add: getRegistryEntries_def comp_def)

lemma FluidInstance_getContainer_frame:
  "snd (FluidInstance_getContainer refuses this id' config docs) = docs"
  by (simp add: FluidInstance_getContainer_def getContainer_def FluidContainer_constructor_def
      split: sum.splits option.splits prod.splits)

text \<open>
  C7. The eager list is instantiated on the first creation of a container and on no load.
  Let a document not exist yet, let the configuration list at least one data object class,
  with pairwise distinct types, and let the ids of the eager list be pairwise distinct
  and accepted by the runtime. Then \<open>FluidInstance_createContainer\<close> returns a container
  whose document holds exactly the entries of the eager list as root objects, once each and
  in the order of the list, and they are there when the container is returned. Loading this
  document afterwards with \<open>FluidInstance_getContainer\<close> returns a container and leaves the
  document as it is: the eager list is not run again, and there is no error of a second
  creation. And no call of \<open>FluidInstance_getContainer\<close>, whatever its arguments, changes a
  document of the service.
\<close>

theorem eager_list_on_first_creation_only:
  assumes "docs id' = None"
    and "dataObjects config \<noteq> []"
    and "distinct (map (\<lambda>c. factory_type (factory c)) (dataObjects config))"
    and "distinct (map fst (eager_list config))"
    and "accepts_unused refuses (eager_list config)"
    and "dataObjects config' = dataObjects config"
  shows "FluidInstance_createContainer refuses this id' config docs
           = (Inr \<lparr>container = id',
                   types = set (map (\<lambda>c. factory_type (factory c)) (dataObjects config)),
                   createNew = True\<rparr>,
              docs(id' \<mapsto> \<lparr>rootDataStores = eager_roots (eager_list config)\<rparr>))
       \<and> FluidInstance_getContainer refuses this id' config'
           (snd (FluidInstance_createContainer refuses this id' config docs))
           = (Inr \<lparr>container = id',
                   types = set (map (\<lambda>c. factory_type (factory c)) (dataObjects config)),
                   createNew = False\<rparr>,
              docs(id' \<mapsto> \<lparr>rootDataStores = eager_roots (eager_list config)\<rparr>))
       \<and> snd (FluidInstance_getContainer refuses this id'' config'' docs'') = docs''"
proof -
  let ?docs = "docs(id' \<mapsto> \<lparr>rootDataStores = eager_roots (eager_list config)\<rparr>)"
  from registry_of_distinct_types [OF assms(2,3)] obtain namedEntries where
    entries: "getRegistryEntries (dataObjects config) = Inr namedEntries"
      "map fst namedEntries = map (\<lambda>c. factory_type (factory c)) (dataObjects config)"
    by blast
  let ?runtimeFactory = "DOProviderContainerRuntimeFactory_constructor namedEntries
    (config_initialDataObjects config)"
  have eager: "initialDataObjects ?runtimeFactory = eager_list config"
    by (simp add: eager_list_def DOProviderContainerRuntimeFactory_constructor_def)
  from entries(2) assms(3) have "distinct (map fst namedEntries)"
    by simp
  then have constructed: "FluidContainer_constructor id' namedEntries cn world
      = (Inr \<lparr>container = id', types = set (map fst namedEntries), createNew = cn\<rparr>, world)"
    for cn and world :: documents
    by (rule FluidContainer_constructor_distinct)
  have "getContainer refuses (containerService this) id' ?runtimeFactory True docs
      = (Inr id', ?docs)"
    using getContainer_create
      [where docs = docs and id' = id' and runtimeFactory = ?runtimeFactory
         and service = "containerService this"]
      assms(1,4,5) eager
    by simp
  then have created: "FluidInstance_createContainer refuses this id' config docs
      = (Inr \<lparr>container = id', types = set (map fst namedEntries), createNew = True\<rparr>, ?docs)"
    using entries(1) constructed
    by (simp add: FluidInstance_createContainer_def)
  have "?docs id' = Some \<lparr>rootDataStores = eager_roots (eager_list config)\<rparr>"
    by simp
  from getContainer_load
    [where docs = ?docs and id' = id' and service = "containerService this", OF this]
  have "FluidInstance_getContainer refuses this id' config' ?docs
      = (Inr \<lparr>container = id', types = set (map fst namedEntries), createNew = False\<rparr>, ?docs)"
    using entries(1) assms(6) constructed
    by (simp add: FluidInstance_getContainer_def)
  with created entries(2) show ?thesis
    by (simp add: FluidInstance_getContainer_frame)
qed

theorem eager_list_on_first_creation_only_witness:
  "FluidInstance_createContainer refuses_collision \<lparr>containerService = ''tinylicious''\<rparr> ''doc''
       \<lparr>dataObjects = [Foo, Bar], config_initialDataObjects = Some [(''a'', Bar), (''b'', Foo)]\<rparr>
       Map.empty
     = (Inr \<lparr>container = ''doc'', types = {''foo-dataobject'', ''bar-dataobject''},
             createNew = True\<rparr>,
        [''doc'' \<mapsto> \<lparr>rootDataStores = [(''a'', ''bar-dataobject''), (''b'', ''foo-dataobject'')]\<rparr>])
   \<and> FluidInstance_getContainer refuses_collision \<lparr>containerService = ''tinylicious''\<rparr> ''doc''
       \<lparr>dataObjects = [Foo, Bar]\<rparr>
       (snd (FluidInstance_createContainer refuses_collision
               \<lparr>containerService = ''tinylicious''\<rparr> ''doc''
               \<lparr>dataObjects = [Foo, Bar],
                  config_initialDataObjects = Some [(''a'', Bar), (''b'', Foo)]\<rparr>
               Map.empty))
     = (Inr \<lparr>container = ''doc'', types = {''foo-dataobject'', ''bar-dataobject''},
             createNew = False\<rparr>,
        [''doc'' \<mapsto> \<lparr>rootDataStores = [(''a'', ''bar-dataobject''), (''b'', ''foo-dataobject'')]\<rparr>])"
proof -
  let ?config = "\<lparr>dataObjects = [Foo, Bar],
    config_initialDataObjects = Some [(''a'', Bar), (''b'', Foo)]\<rparr>"
  have new: "Map.empty ''doc'' = (None :: IContainerRuntime option)"
    by simp
  have classes: "dataObjects ?config \<noteq> []"
    by simp
  have registry: "distinct (map (\<lambda>c. factory_type (factory c)) (dataObjects ?config))"
    by (simp add: Foo_def Bar_def)
  have eager: "eager_list ?config = [(''a'', Bar), (''b'', Foo)]"
    by (simp add: eager_list_def DOProviderContainerRuntimeFactory_constructor_def)
  have ids: "distinct (map fst (eager_list ?config))"
    by (simp add: eager)
  have accepted: "accepts_unused refuses_collision (eager_list ?config)"
    by (simp add: eager accepts_unused_def refuses_collision_def)
  have same: "dataObjects \<lparr>dataObjects = [Foo, Bar]\<rparr> = dataObjects ?config"
    by simp
  note both = eager_list_on_first_creation_only
    [where docs = Map.empty and id' = "''doc''"
       and this = "\<lparr>containerService = ''tinylicious''\<rparr>",
      OF new classes registry ids accepted same]
  have created: "FluidInstance_createContainer refuses_collision
       \<lparr>containerService = ''tinylicious''\<rparr> ''doc'' ?config Map.empty
     = (Inr \<lparr>container = ''doc'', types = {''foo-dataobject'', ''bar-dataobject''},
             createNew = True\<rparr>,
        [''doc'' \<mapsto> \<lparr>rootDataStores = [(''a'', ''bar-dataobject''), (''b'', ''foo-dataobject'')]\<rparr>])"
    using both [THEN conjunct1]
    by (simp add: eager_list_def DOProviderContainerRuntimeFactory_constructor_def
        Foo_def Bar_def eager_roots_def)
  have "FluidInstance_getContainer refuses_collision \<lparr>containerService = ''tinylicious''\<rparr>
       ''doc'' \<lparr>dataObjects = [Foo, Bar]\<rparr>
       (snd (FluidInstance_createContainer refuses_collision
               \<lparr>containerService = ''tinylicious''\<rparr> ''doc'' ?config Map.empty))
     = (Inr \<lparr>container = ''doc'', types = {''foo-dataobject'', ''bar-dataobject''},
             createNew = False\<rparr>,
        [''doc'' \<mapsto> \<lparr>rootDataStores = [(''a'', ''bar-dataobject''), (''b'', ''foo-dataobject'')]\<rparr>])"
    using both [THEN conjunct2, THEN conjunct1]
    by (simp add: eager_list_def DOProviderContainerRuntimeFactory_constructor_def
        Foo_def Bar_def eager_roots_def)
  with created show ?thesis
    by (intro conjI)
qed

text \<open>
  Creating a container over classes of which two have one type, on a document that does not
  exist yet: \<open>FluidInstance_createContainer\<close> asks the service for the new container first,
  which creates the document with the data objects of the eager list, and constructs the
  \<open>FluidContainer\<close> afterwards. So the error of the duplicate type comes back together with
  the new document and its root objects.
\<close>

lemma createContainer_duplicate_types:
  assumes "docs id' = None"
    and "dataObjects config \<noteq> []"
    and "\<not> distinct (map (\<lambda>c. factory_type (factory c)) (dataObjects config))"
    and "distinct (map fst (eager_list config))"
    and "accepts_unused refuses (eager_list config)"
  shows "\<exists>t. FluidInstance_createContainer refuses this id' config docs
           = (Inl (Error (duplicate_type_message t)),
              docs(id' \<mapsto> \<lparr>rootDataStores = eager_roots (eager_list config)\<rparr>))"
proof -
  let ?docs = "docs(id' \<mapsto> \<lparr>rootDataStores = eager_roots (eager_list config)\<rparr>)"
  let ?entries = "map (\<lambda>dataObjectClass.
    (factory_type (factory dataObjectClass), factory dataObjectClass)) (dataObjects config)"
  have entries: "getRegistryEntries (dataObjects config) = Inr ?entries"
    using assms(2) by (simp add: getRegistryEntries_def)
  have types: "map fst ?entries = map (\<lambda>c. factory_type (factory c)) (dataObjects config)"
    by (simp add: comp_def)
  have "\<not> distinct (map fst ?entries)"
    unfolding types by (rule assms(3))
  from FluidContainer_constructor_duplicate [OF this, of id' True ?docs] obtain t where
    failed: "FluidContainer_constructor id' ?entries True ?docs
      = (Inl (Error (duplicate_type_message t)), ?docs)"
    by blast
  let ?runtimeFactory = "DOProviderContainerRuntimeFactory_constructor ?entries
    (config_initialDataObjects config)"
  have eager: "initialDataObjects ?runtimeFactory = eager_list config"
    by (simp add: eager_list_def DOProviderContainerRuntimeFactory_constructor_def)
  have "getContainer refuses (containerService this) id' ?runtimeFactory True docs
      = (Inr id', ?docs)"
    using getContainer_create
      [where docs = docs and id' = id' and runtimeFactory = ?runtimeFactory
         and service = "containerService this"]
      assms(1,4,5) eager
    by simp
  with entries failed
  have "FluidInstance_createContainer refuses this id' config docs
      = (Inl (Error (duplicate_type_message t)), ?docs)"
    by (simp add: FluidInstance_createContainer_def)
  then show ?thesis ..
qed

text \<open>
  C5. What the code does where the claim fails: \<open>FluidInstance_createContainer\<close> over the
  classes \<^verbatim>\<open>[Foo, Foo]\<close> with the eager list \<^verbatim>\<open>[["a", Foo]]\<close>, on a service without documents,
  returns the error of the duplicate type, and leaves on the service the document with the
  root object \<^verbatim>\<open>a\<close>. The error is raised after a data object has been created, not before.
\<close>

theorem createContainer_duplicate_types_after_eager_objects:
  "FluidInstance_createContainer refuses_collision \<lparr>containerService = ''tinylicious''\<rparr> ''doc''
       \<lparr>dataObjects = [Foo, Foo], config_initialDataObjects = Some [(''a'', Foo)]\<rparr>
       Map.empty
     = (Inl (Error ''Multiple DataObjects share the same type identifier foo-dataobject,[object Promise]''),
        [''doc'' \<mapsto> \<lparr>rootDataStores = [(''a'', ''foo-dataobject'')]\<rparr>])"
  by (simp add: FluidInstance_createContainer_def getRegistryEntries_def getContainer_def
      DOProviderContainerRuntimeFactory_constructor_def containerInitializingFirstTime_def
      createRootDataStore_def refuses_collision_def newRuntime_def FluidContainer_constructor_def
      duplicate_type_message_def Foo_def)

end
